theory Spec2Isabelle
  imports Main "HOL-Library.Signed_Division" "HOL-Library.Sublist" "HOL-Library.Word"
begin

section \<open>The attention operator of contrib\_ops/cpu/bert/attention.cc\<close>

text \<open>
  The development follows the source file block by block: the shape validation
  \<open>AttentionBase::CheckInputs\<close>, the helper \<open>AttentionBase::GetPresent\<close>, the
  pre-packing of the weights (\<open>Attention<T>::PrePack\<close>,
  \<open>IsPackWeightsSuccessful\<close>, \<open>UseSharedPrePackedBuffers\<close>) and the
  projection loop of \<open>Attention<T>::Compute\<close>.

  Conventions. An \<open>int64_t\<close> or \<open>int\<close> of the source is an \<open>int\<close> here; \<open>/\<close> and
  \<open>%\<close> of C++ truncate towards zero and are \<open>sdiv\<close> and \<open>smod\<close>; the narrowing
  \<open>static_cast<int>\<close> is written out. Signed overflow is undefined in C++ and is not
  modelled: tensor dimensions are far below the 64-bit range. A \<open>size_t\<close> is a \<open>nat\<close>.
  A pointer that may be null is an \<open>option\<close>. Member names lose the trailing
  underscore of the source (\<open>num_heads_\<close> is \<open>num_heads\<close>).
\<close>

subsection \<open>Tensors, attributes and status values\<close>

type_synonym TensorShape = "int list"

record 'a Tensor =
  Shape :: TensorShape
  Data :: "'a list"

text \<open>
  The attributes held by \<open>AttentionBase\<close>. Its constructor belongs to a header that is
  not part of the sources; it reads the four attributes of the operator and
  requires \<open>num_heads_ > 0\<close>.
\<close>

record AttentionBase =
  num_heads :: int
  is_unidirectional :: bool
  qkv_hidden_sizes :: "int list"
  use_merged_weights :: bool

datatype StatusCode = INVALID_ARGUMENT

text \<open>
  \<open>ORT_MAKE_STATUS(ONNXRUNTIME, code, text, values...)\<close> builds a status from a code,
  the literal text and the values appended to it.
\<close>

datatype Status = OK | MAKE_STATUS StatusCode string "int list"

fun ErrorMessage :: "Status \<Rightarrow> string" where
  "ErrorMessage OK = []"
| "ErrorMessage (MAKE_STATUS c txt vals) = txt"

definition quoted :: "string \<Rightarrow> string" where
  "quoted s = CHR 0x27 # s @ [CHR 0x27]"

text \<open>A status names an operand when its text holds the operand's name in quotes.\<close>

definition names_operand :: "string \<Rightarrow> Status \<Rightarrow> bool" where
  "names_operand operand st = (st \<noteq> OK \<and> sublist (quoted operand) (ErrorMessage st))"

definition static_cast_int :: "int \<Rightarrow> int" where
  "static_cast_int x = (x + 2 ^ 31) mod 2 ^ 32 - 2 ^ 31"

subsection \<open>CheckInputs\<close>

text \<open>
  Lines 157 to 247: the resolution of the hidden sizes. The result is the status of an
  early return, or the locals \<open>(hidden_size_q, hidden_size_k, hidden_size_v,
  target_sequence_length)\<close> as they stand at line 249.

  Line 160 reads \<open>int64_t hidden_size_v = hidden_size_v;\<close>: the variable is initialised
  from itself, so its value is whatever the stack holds. That value is the parameter
  \<open>indeterminate\<close>.
\<close>

text \<open>The loop of lines 231 to 236: the first element that \<open>num_heads_\<close> does not divide.\<close>

fun first_indivisible :: "int \<Rightarrow> int list \<Rightarrow> int option" where
  "first_indivisible n [] = None"
| "first_indivisible n (x # xs) = (if x smod n \<noteq> 0 then Some x else first_indivisible n xs)"

definition CheckInputs_hidden_sizes ::
  "'z AttentionBase_scheme \<Rightarrow> int \<Rightarrow> int \<Rightarrow> int \<Rightarrow> int \<Rightarrow> TensorShape \<Rightarrow> TensorShape \<Rightarrow>
   'a Tensor option \<Rightarrow> 'a Tensor option \<Rightarrow> 'a Tensor option \<Rightarrow> 'a Tensor option \<Rightarrow>
   Status + (int \<times> int \<times> int \<times> int)" where
  "CheckInputs_hidden_sizes this indeterminate batch_size sequence_length input_hidden_size
      weights_dims bias_dims key val weight_key weight_value =
   (let target_sequence_length = sequence_length;
        hidden_size_q = (bias_dims ! 0) sdiv 3;
        hidden_size_k = hidden_size_q;
        hidden_size_v = indeterminate
    in
    if \<not> use_merged_weights this then
      (if key = None \<or> val = None \<or> weight_key = None \<or> weight_value = None then
         Inl (MAKE_STATUS INVALID_ARGUMENT
           ''When merged_weights is 0, key, value, weight_key and weight_value are required'' [])
       else
       (let key_dims = Shape (the key) in
        if length key_dims \<noteq> 3 then
          Inl (MAKE_STATUS INVALID_ARGUMENT
            ''Input 'key' is expected to have 3 dimensions, got '' [int (length key_dims)])
        else if key_dims ! 0 \<noteq> batch_size then
          Inl (MAKE_STATUS INVALID_ARGUMENT
            ''Input 'key' dimension 0 should have same length as dimension 0 of input 0'' [])
        else if key_dims ! 2 \<noteq> input_hidden_size then
          Inl (MAKE_STATUS INVALID_ARGUMENT
            ''Input 'key' dimension 2 should have same length as dimension 2 of input 0'' [])
        else
        (let value_dims = Shape (the val) in
        if length value_dims \<noteq> 3 then
          Inl (MAKE_STATUS INVALID_ARGUMENT
            ''Input 'value' is expected to have 3 dimensions, got '' [int (length value_dims)])
        else if value_dims ! 0 \<noteq> batch_size then
          Inl (MAKE_STATUS INVALID_ARGUMENT
            ''Input 'value' dimension 0 should have same length as dimension 0 of input 0'' [])
        else if value_dims ! 1 \<noteq> key_dims ! 1 then
          Inl (MAKE_STATUS INVALID_ARGUMENT
            ''Input 'key' and 'value' dimension 1 should have same length'' [])
        else if value_dims ! 2 \<noteq> input_hidden_size then
          Inl (MAKE_STATUS INVALID_ARGUMENT
            ''Input 'value' dimension 2 should have same length as dimension 2 of input 0'' [])
        else
        (let weight_key_dims = Shape (the weight_key) in
        if length weight_key_dims \<noteq> 2 then
          Inl (MAKE_STATUS INVALID_ARGUMENT
            ''Input 'weight_key' is expected to have 2 dimensions, got ''
            [int (length weight_key_dims)])
        else if weight_key_dims ! 0 \<noteq> input_hidden_size then
          Inl (MAKE_STATUS INVALID_ARGUMENT
            ''Input 'weight_key' dimension 0 should have same length as dimension 2 of input 0'' [])
        else
        (let weight_value_dims = Shape (the weight_value) in
        if length weight_value_dims \<noteq> 2 then
          Inl (MAKE_STATUS INVALID_ARGUMENT
            ''Input 'weight_value' is expected to have 2 dimensions, got ''
            [int (length weight_value_dims)])
        else if weight_value_dims ! 0 \<noteq> input_hidden_size then
          Inl (MAKE_STATUS INVALID_ARGUMENT
            ''Input 'weight_value' dimension 0 should have same length as dimension 2 of input 0'' [])
        else
          Inr (weights_dims ! 1, weight_key_dims ! 1, weight_value_dims ! 1, key_dims ! 1))))))
    else if length (qkv_hidden_sizes this) \<noteq> 0 then
      (if length (qkv_hidden_sizes this) \<noteq> 3 then
         Inl (MAKE_STATUS INVALID_ARGUMENT ''qkv_hidden_sizes attribute should have 3 elements'' [])
       else
         (case first_indivisible (num_heads this) (qkv_hidden_sizes this) of
            Some x \<Rightarrow>
              Inl (MAKE_STATUS INVALID_ARGUMENT ''hidden_size should be divisible by num_heads:'' [x])
          | None \<Rightarrow>
             (let hidden_size_q = qkv_hidden_sizes this ! 0;
                  hidden_size_k = qkv_hidden_sizes this ! 1;
                  hidden_size_v = qkv_hidden_sizes this ! 2
              in
              if hidden_size_q \<noteq> hidden_size_k then
                Inl (MAKE_STATUS INVALID_ARGUMENT
                  ''qkv_hidden_sizes first element should be same as the second'' [])
              else Inr (hidden_size_q, hidden_size_k, hidden_size_v, target_sequence_length))))
    else Inr (hidden_size_q, hidden_size_k, hidden_size_v, target_sequence_length))"

text \<open>
  Lines 255 to 287: the checks of \<open>past\<close>. The result is the status of an early return or
  \<open>total_sequence_length\<close>.
\<close>

definition CheckInputs_past ::
  "'z AttentionBase_scheme \<Rightarrow> int \<Rightarrow> int \<Rightarrow> int \<Rightarrow> int \<Rightarrow> 'a Tensor option \<Rightarrow> Status + int" where
  "CheckInputs_past this batch_size hidden_size_k hidden_size_v total_sequence_length past =
   (case past of
      None \<Rightarrow> Inr total_sequence_length
    | Some past \<Rightarrow>
       (let past_dims = Shape past in
        if hidden_size_k \<noteq> hidden_size_v then
          Inl (MAKE_STATUS INVALID_ARGUMENT ''Input 'past' expect hidden_size_k == hidden_size_v'' [])
        else if length past_dims \<noteq> 5 then
          Inl (MAKE_STATUS INVALID_ARGUMENT
            ''Input 'past' is expected to have 5 dimension, got '' [int (length past_dims)])
        else if past_dims ! 0 \<noteq> 2 then
          Inl (MAKE_STATUS INVALID_ARGUMENT ''Inputs 'past' dimension 0 shall have length of 2'' [])
        else if past_dims ! 1 \<noteq> batch_size then
          Inl (MAKE_STATUS INVALID_ARGUMENT
            ''Inputs 'past' dimension 1 shall have same length as dimension 0 of input 0'' [])
        else if static_cast_int (past_dims ! 2) \<noteq> num_heads this then
          Inl (MAKE_STATUS INVALID_ARGUMENT
            ''Inputs 'past' dimension 2 shall have length of num_heads'' [num_heads this])
        else if static_cast_int (past_dims ! 4) \<noteq> hidden_size_k sdiv num_heads this then
          Inl (MAKE_STATUS INVALID_ARGUMENT
            ''Inputs 'past' dimension 2 shall have length of '' [hidden_size_k sdiv num_heads this])
        else Inr (total_sequence_length + past_dims ! 3)))"

text \<open>
  Lines 289 to 333: the checks of \<open>mask_index\<close>. The parameter is a reference to a
  pointer, and line 301 sets it to null; the result is the status of an early return
  or the pointer as the block leaves it.
\<close>

definition CheckInputs_mask ::
  "'z AttentionBase_scheme \<Rightarrow> int \<Rightarrow> int \<Rightarrow> int \<Rightarrow> 'a Tensor option \<Rightarrow> Status + 'a Tensor option" where
  "CheckInputs_mask this batch_size sequence_length total_sequence_length mask_index =
   (case mask_index of
      None \<Rightarrow> Inr None
    | Some mask_tensor \<Rightarrow>
       (let mask_dims = Shape mask_tensor in
        if length mask_dims = 1 then
          (if mask_dims ! 0 \<noteq> batch_size \<and> mask_dims ! 0 \<noteq> 2 * batch_size then
             Inl (MAKE_STATUS INVALID_ARGUMENT
               ''Inputs 'mask_index' with 1D data shall have length of batch_size or 2 * batch_size'' [])
           else Inr mask_index)
        else if length mask_dims = 2 then
          (if mask_dims ! 0 \<noteq> batch_size \<or> mask_dims ! 1 \<noteq> total_sequence_length then
             (if (mask_dims ! 0 = batch_size \<or> mask_dims ! 0 = 1) \<and> mask_dims ! 1 = 1 then
                Inr None
              else
                Inl (MAKE_STATUS INVALID_ARGUMENT
                  ''Inputs 'mask_index' with 2D data shall have shape batch_size x total_sequence_length'' []))
           else Inr mask_index)
        else if length mask_dims = 3 then
          (if mask_dims ! 0 \<noteq> batch_size \<or> mask_dims ! 1 \<noteq> sequence_length \<or>
              mask_dims ! 2 \<noteq> total_sequence_length then
             Inl (MAKE_STATUS INVALID_ARGUMENT
               ''Inputs 'mask_index' with 3D data shall have shape batch_size x sequence_length x total_sequence_length'' [])
           else Inr mask_index)
        else if length mask_dims = 4 then
          (if mask_dims ! 0 \<noteq> batch_size \<or> mask_dims ! 1 \<noteq> 1 \<or> mask_dims ! 2 \<noteq> mask_dims ! 3 \<or>
              mask_dims ! 2 < total_sequence_length then
             Inl (MAKE_STATUS INVALID_ARGUMENT
               ''Inputs 'mask_index' with 4D data shall have shape batch_size x 1 x max_sequence_length x max_sequence_length)'' [])
           else if is_unidirectional this = True then
             Inl (MAKE_STATUS INVALID_ARGUMENT
               ''Inputs 'mask_index' with 4D data shall have is_unidirectional_ set to false'' [])
           else Inr mask_index)
        else
          Inl (MAKE_STATUS INVALID_ARGUMENT
            ''Input 'mask_index' is expected to have 1, 2, 3 or 4 dimensions, got ''
            [int (length mask_dims)])))"

text \<open>Lines 335 to 364: the checks of \<open>extra_add_qk\<close>, ending in the final return.\<close>

definition CheckInputs_extra_add_qk ::
  "'z AttentionBase_scheme \<Rightarrow> int \<Rightarrow> int \<Rightarrow> 'a Tensor option \<Rightarrow> Status" where
  "CheckInputs_extra_add_qk this batch_size sequence_length extra_add_qk =
   (case extra_add_qk of
      None \<Rightarrow> OK
    | Some extra \<Rightarrow>
       (let extra_add_qk_dims = Shape extra in
        if length extra_add_qk_dims \<noteq> 4 then
          MAKE_STATUS INVALID_ARGUMENT
            ''Input 'extra_add_qk' is expected to have 4 dimensions, got ''
            [int (length extra_add_qk_dims)]
        else if extra_add_qk_dims ! 0 \<noteq> batch_size then
          MAKE_STATUS INVALID_ARGUMENT
            ''Input 'extra_add_qk' dimension 0 should be same as batch_size, got ''
            [extra_add_qk_dims ! 0]
        else if extra_add_qk_dims ! 1 \<noteq> num_heads this then
          MAKE_STATUS INVALID_ARGUMENT
            ''Input 'extra_add_qk' dimension 1 should be same as number of heads, got ''
            [extra_add_qk_dims ! 1]
        else if extra_add_qk_dims ! 2 \<noteq> sequence_length then
          MAKE_STATUS INVALID_ARGUMENT
            ''Input 'extra_add_qk' dimension 2 should be same as sequence_length, got ''
            [extra_add_qk_dims ! 2]
        else if extra_add_qk_dims ! 3 \<noteq> sequence_length then
          MAKE_STATUS INVALID_ARGUMENT
            ''Input 'extra_add_qk' dimension 3 should be same as sequence_length, got ''
            [extra_add_qk_dims ! 3]
        else OK))"

text \<open>
  The whole function (lines 61 to 367). It returns a status and leaves \<open>mask_index\<close>,
  which it takes by reference, either as it was or null: the result is the pair of
  the status and the pointer after the call.
\<close>

definition CheckInputs ::
  "'z AttentionBase_scheme \<Rightarrow> int \<Rightarrow> TensorShape \<Rightarrow> TensorShape \<Rightarrow> TensorShape \<Rightarrow>
   'a Tensor option \<Rightarrow> 'a Tensor option \<Rightarrow> 'a Tensor option \<Rightarrow>
   'a Tensor option \<Rightarrow> 'a Tensor option \<Rightarrow> 'a Tensor option \<Rightarrow> 'a Tensor option \<Rightarrow>
   Status \<times> 'a Tensor option" where
  "CheckInputs this indeterminate input_shape weights_shape bias_shape mask_index past extra_add_qk
      key val weight_key weight_value =
   (if past \<noteq> None \<and> extra_add_qk \<noteq> None then
      (MAKE_STATUS INVALID_ARGUMENT ''Attention cannot have past sequence and extra add qk'' [],
       mask_index)
    else
    (let dims = input_shape in
    if length dims \<noteq> 3 then
      (MAKE_STATUS INVALID_ARGUMENT ''Input 'input' is expected to have 3 dimensions, got ''
         [int (length dims)], mask_index)
    else
    (let batch_size = dims ! 0;
         sequence_length = dims ! 1;
         input_hidden_size = dims ! 2;
         weights_dims = weights_shape
     in
    if length weights_dims \<noteq> 2 then
      (MAKE_STATUS INVALID_ARGUMENT ''Input 'weights' is expected to have 2 dimensions, got ''
         [int (length weights_dims)], mask_index)
    else if weights_dims ! 0 \<noteq> input_hidden_size then
      (MAKE_STATUS INVALID_ARGUMENT
         ''Input 1 dimension 0 should have same length as dimension 2 of input 0'' [], mask_index)
    else
    (let bias_dims = bias_shape in
    if length bias_dims \<noteq> 1 then
      (MAKE_STATUS INVALID_ARGUMENT ''Input 'bias' is expected to have 1 dimension, got ''
         [int (length bias_dims)], mask_index)
    else if bias_dims ! 0 \<noteq> weights_dims ! 1 then
      (MAKE_STATUS INVALID_ARGUMENT
         (''Input 'bias' dimension 0 should have same length as dimension 1 of input '' @
          quoted ''weights'') [],
       mask_index)
    else
    (case CheckInputs_hidden_sizes this indeterminate batch_size sequence_length input_hidden_size
            weights_dims bias_dims key val weight_key weight_value of
       Inl st \<Rightarrow> (st, mask_index)
     | Inr (hidden_size_q, hidden_size_k, hidden_size_v, target_sequence_length) \<Rightarrow>
        if bias_dims ! 0 \<noteq> hidden_size_q + hidden_size_k + hidden_size_v then
          (MAKE_STATUS INVALID_ARGUMENT
             ''Input 'bias' dimension 0 should have same length as sum of Q/K/V hidden sizes'' [],
           mask_index)
        else
        (case CheckInputs_past this batch_size hidden_size_k hidden_size_v
                target_sequence_length past of
           Inl st \<Rightarrow> (st, mask_index)
         | Inr total_sequence_length \<Rightarrow>
            (case CheckInputs_mask this batch_size sequence_length total_sequence_length
                    mask_index of
               Inl st \<Rightarrow> (st, mask_index)
             | Inr mask_index' \<Rightarrow>
                 (CheckInputs_extra_add_qk this batch_size sequence_length extra_add_qk,
                  mask_index'))))))))"

text \<open>
  The second entry point (lines 369 to 382) bounds \<open>num_heads_\<close> and delegates with the
  four operands of the separate weights absent.
\<close>

definition CheckInputs_max_threads ::
  "'z AttentionBase_scheme \<Rightarrow> int \<Rightarrow> TensorShape \<Rightarrow> TensorShape \<Rightarrow> TensorShape \<Rightarrow>
   'a Tensor option \<Rightarrow> 'a Tensor option \<Rightarrow> 'a Tensor option \<Rightarrow> int \<Rightarrow>
   Status \<times> 'a Tensor option" where
  "CheckInputs_max_threads this indeterminate input_shape weights_shape bias_shape mask_index past
      extra_add_qk max_threads_per_block =
   (if num_heads this > max_threads_per_block then
      (MAKE_STATUS INVALID_ARGUMENT ''num_heads should be no larger than '' [max_threads_per_block],
       mask_index)
    else CheckInputs this indeterminate input_shape weights_shape bias_shape mask_index past
           extra_add_qk None None None None)"

subsection \<open>GetPresent\<close>

text \<open>
  What a call of the source can do besides returning: throw (\<open>ORT_THROW\<close>), or run
  into undefined behaviour (an index outside an array or vector, a division by zero).
\<close>

datatype 'r Outcome = Return 'r | Throw string | UndefinedBehaviour

text \<open>
  Lines 394 to 401: the shape handed to the output binding, and the value that the
  reference parameter \<open>past_sequence_length\<close> holds afterwards. The function is called
  by the attention-score engine after \<open>CheckInputs\<close>; \<open>past_dims[3]\<close> of a tensor of
  rank 3 or less is outside the array.
\<close>

definition GetPresent_dims ::
  "'z AttentionBase_scheme \<Rightarrow> 'a Tensor option \<Rightarrow> int \<Rightarrow> int \<Rightarrow> int \<Rightarrow> int \<Rightarrow> (TensorShape \<times> int) Outcome" where
  "GetPresent_dims this past batch_size head_size sequence_length past_sequence_length =
   (let present_dims = [2, batch_size, num_heads this, sequence_length, head_size] in
    case past of
      None \<Rightarrow> Return (present_dims, past_sequence_length)
    | Some past_tensor \<Rightarrow>
       (let past_dims = Shape past_tensor in
        if length past_dims \<le> 3 then UndefinedBehaviour
        else Return (present_dims[3 := present_dims ! 3 + past_dims ! 3],
                     static_cast_int (past_dims ! 3))))"

text \<open>
  \<open>context->Output(1, present_shape)\<close> belongs to the kernel context, which is not part
  of the sources: \<open>context_Output\<close> is the binding, from the index and the shape of an
  output to its tensor, null when the output is not bound. The result is the returned
  pointer with the final \<open>past_sequence_length\<close>.
\<close>

definition GetPresent ::
  "'z AttentionBase_scheme \<Rightarrow> (nat \<Rightarrow> TensorShape \<Rightarrow> 'a Tensor option) \<Rightarrow> 'a Tensor option \<Rightarrow>
   int \<Rightarrow> int \<Rightarrow> int \<Rightarrow> int \<Rightarrow> ('a Tensor option \<times> int) Outcome" where
  "GetPresent this context_Output past batch_size head_size sequence_length past_sequence_length =
   (case GetPresent_dims this past batch_size head_size sequence_length past_sequence_length of
      Return (present_shape, past_sequence_length') \<Rightarrow>
        (let present = context_Output 1 present_shape in
         if past \<noteq> None \<and> present = None then
           Throw ''Expect to have present state output when past state input is given''
         else Return (present, past_sequence_length'))
    | Throw msg \<Rightarrow> Throw msg
    | UndefinedBehaviour \<Rightarrow> UndefinedBehaviour)"

subsection \<open>The kernel and the collaborators of pre-packing\<close>

text \<open>A buffer is the bytes that a \<open>BufferUniquePtr\<close> owns; the null pointer is \<open>None\<close>.\<close>

type_synonym Buffer = "8 word list"

record Attention = AttentionBase +
  packed_weights :: "Buffer option list"
  packed_weights_size :: "nat list"
  is_prepack :: bool
  weight_shape :: TensorShape

record PrePackedWeights =
  buffers :: "Buffer option list"
  buffer_sizes :: "nat list"

text \<open>
  The vendor routines are declared outside the sources and are parameters here.
  \<open>MlasGemmPackBSize N K\<close> is the size in bytes of a packed \<open>K \<times> N\<close> matrix, 0 when
  packing is not available. \<open>MlasGemmPackB N K B b ldb window\<close> packs the matrix that
  starts at \<open>B + b\<close> with row stride \<open>ldb\<close> into the bytes at the destination pointer:
  it maps the window of the destination to its new content.
  \<open>MlasGemm M N K alpha A a lda PackedB beta C c ldc\<close> is the multiplication against a
  packed matrix, written to \<open>C + c\<close>.
\<close>

record 'a MLAS =
  MlasGemmPackBSize :: "nat \<Rightarrow> nat \<Rightarrow> nat"
  MlasGemmPackB :: "nat \<Rightarrow> nat \<Rightarrow> 'a list \<Rightarrow> nat \<Rightarrow> nat \<Rightarrow> Buffer \<Rightarrow> Buffer"
  MlasGemm :: "nat \<Rightarrow> nat \<Rightarrow> nat \<Rightarrow> 'a \<Rightarrow> 'a list \<Rightarrow> nat \<Rightarrow> nat \<Rightarrow> Buffer \<Rightarrow> 'a \<Rightarrow>
               'a list \<Rightarrow> nat \<Rightarrow> nat \<Rightarrow> 'a list"

text \<open>
  An allocator hands out memory that is not initialised: \<open>alloc p\<close> is the byte that a
  fresh allocation holds at position \<open>p\<close>. The size of an allocation is a \<open>nat\<close>, so
  the overflow that \<open>AllocArray\<close> checks for does not arise.
\<close>

type_synonym Allocator = "nat \<Rightarrow> 8 word"

definition AllocArray :: "Allocator \<Rightarrow> nat \<Rightarrow> nat \<Rightarrow> Buffer" where
  "AllocArray alloc nmemb sz = map alloc [0..<nmemb * sz]"

definition memset :: "Buffer \<Rightarrow> 8 word \<Rightarrow> nat \<Rightarrow> Buffer" where
  "memset s c n = replicate (min n (length s)) c @ drop n s"

text \<open>Writing a block of cells into an array at an offset; the length does not change.\<close>

definition write_at :: "'b list \<Rightarrow> nat \<Rightarrow> 'b list \<Rightarrow> 'b list" where
  "write_at dst off new =
     map (\<lambda>p. if off \<le> p \<and> p < off + length new then new ! (p - off) else dst ! p) [0..<length dst]"

definition size_t :: "int \<Rightarrow> nat" where
  "size_t x = nat (x mod 2 ^ 64)"

subsection \<open>FreePackedWeights, IsPackWeightsSuccessful, PrePack, UseSharedPrePackedBuffers\<close>

text \<open>Lines 18 to 22. Resetting an element past the end of the array is undefined.\<close>

definition FreePackedWeights :: "Buffer option list \<Rightarrow> nat \<Rightarrow> Buffer option list Outcome" where
  "FreePackedWeights array array_size =
     (if array_size > length array then UndefinedBehaviour
      else Return (fold (\<lambda>i a. a[i := None]) [0..<array_size] array))"

text \<open>
  The loop of lines 438 to 442: \<open>n\<close> iterations are left, \<open>w\<close> is the offset of
  \<open>weights_data\<close> in the weight array and \<open>d\<close> the offset of \<open>packed_weights_data\<close> in
  the buffer.
\<close>

fun pack_heads ::
  "'a MLAS \<Rightarrow> nat \<Rightarrow> nat \<Rightarrow> 'a list \<Rightarrow> nat \<Rightarrow> nat \<Rightarrow> nat \<Rightarrow> nat \<Rightarrow> nat \<Rightarrow> Buffer \<Rightarrow> Buffer" where
  "pack_heads mlas head_size input_hidden_size weights weight_matrix_col_size packb_size
      0 w d buf = buf"
| "pack_heads mlas head_size input_hidden_size weights weight_matrix_col_size packb_size
      (Suc n) w d buf =
     pack_heads mlas head_size input_hidden_size weights weight_matrix_col_size packb_size
       n (w + head_size) (d + packb_size)
       (write_at buf d
          (MlasGemmPackB mlas head_size input_hidden_size weights w weight_matrix_col_size
             (take packb_size (drop d buf))))"

text \<open>
  Lines 415 to 449. \<open>weights_data\<close> is the pair of the weight array and an offset. The
  buffer that \<open>packed_weights_[qkv_index]\<close> owns is the memory that the loop writes, so
  the stored value is the content after the loop. Moving a \<open>BufferUniquePtr\<close> leaves
  null behind. The result is the returned flag, the kernel and the shared record.
\<close>

definition IsPackWeightsSuccessful ::
  "'a MLAS \<Rightarrow> Attention \<Rightarrow> nat \<Rightarrow> Allocator \<Rightarrow> nat \<Rightarrow> nat \<Rightarrow> 'a list \<times> nat \<Rightarrow> nat \<Rightarrow>
   PrePackedWeights option \<Rightarrow> bool \<times> Attention \<times> PrePackedWeights option" where
  "IsPackWeightsSuccessful mlas this qkv_index alloc head_size input_hidden_size weights_data
      weight_matrix_col_size prepacked_weights =
   (let packb_size = MlasGemmPackBSize mlas head_size input_hidden_size in
    if packb_size = 0 then (False, this, prepacked_weights)
    else
    (let loop_len = size_t (num_heads this);
         packed_weights_data_size = packb_size * loop_len;
         packed_weights_data = AllocArray alloc packb_size loop_len;
         packed_weights_data = memset packed_weights_data 0 packed_weights_data_size;
         packed_weights_data =
           pack_heads mlas head_size input_hidden_size (fst weights_data) weight_matrix_col_size
             packb_size loop_len (snd weights_data) 0 packed_weights_data;
         this = this\<lparr>packed_weights := (packed_weights this)[qkv_index := Some packed_weights_data],
                     packed_weights_size := (packed_weights_size this)[qkv_index := packb_size]\<rparr>
     in
     case prepacked_weights of
       None \<Rightarrow> (True, this, None)
     | Some shared \<Rightarrow>
         (True,
          this\<lparr>packed_weights := (packed_weights this)[qkv_index := None]\<rparr>,
          Some (shared\<lparr>buffers := buffers shared @ [packed_weights this ! qkv_index],
                       buffer_sizes := buffer_sizes shared @ [packed_weights_data_size]\<rparr>))))"

text \<open>
  Lines 479 to 505: the hidden sizes that \<open>PrePack\<close> resolves, \<open>None\<close> where it returns
  without packing. \<open>qkv_hidden_sizes_[2]\<close> of a vector of one or two elements is outside
  the vector. The operands of \<open>%\<close> are converted to \<open>size_t\<close>.
\<close>

definition PrePack_hidden_sizes ::
  "Attention \<Rightarrow> TensorShape \<Rightarrow> (nat \<times> nat \<times> nat) option Outcome" where
  "PrePack_hidden_sizes this weights_dims =
   (if length (qkv_hidden_sizes this) \<noteq> 0 then
      (if length (qkv_hidden_sizes this) < 3 then UndefinedBehaviour
       else
       (let q_hidden_size = size_t (qkv_hidden_sizes this ! 0);
            k_hidden_size = size_t (qkv_hidden_sizes this ! 1);
            v_hidden_size = size_t (qkv_hidden_sizes this ! 2)
        in
        if q_hidden_size = 0 \<or> k_hidden_size = 0 \<or> v_hidden_size = 0 then Return None
        else if q_hidden_size mod size_t (num_heads this) \<noteq> 0 \<or>
                k_hidden_size mod size_t (num_heads this) \<noteq> 0 \<or>
                v_hidden_size mod size_t (num_heads this) \<noteq> 0 then Return None
        else Return (Some (q_hidden_size, k_hidden_size, v_hidden_size))))
    else
      (let hidden_size_x3 = size_t (weights_dims ! 1);
           hidden_size = hidden_size_x3 div 3
       in
       if hidden_size mod size_t (num_heads this) \<noteq> 0 then Return None
       else Return (Some (hidden_size, hidden_size, hidden_size))))"

text \<open>
  Lines 452 to 524. The result is the status, the flag \<open>is_packed\<close>, the kernel and the
  shared record after the call. The three calls of line 507 to 514 are joined by
  \<open>||\<close>: a call is made only when the calls before it succeeded.
\<close>

definition PrePack ::
  "'a MLAS \<Rightarrow> Attention \<Rightarrow> 'a Tensor \<Rightarrow> int \<Rightarrow> Allocator \<Rightarrow> PrePackedWeights option \<Rightarrow>
   (Status \<times> bool \<times> Attention \<times> PrePackedWeights option) Outcome" where
  "PrePack mlas this weights input_idx alloc prepacked_weights =
   (let is_packed = False in
    if 1 \<noteq> input_idx then Return (OK, is_packed, this, prepacked_weights)
    else
    (let this = this\<lparr>weight_shape := Shape weights\<rparr>;
         weights_dims = weight_shape this
     in
    if length weights_dims \<noteq> 2 then Return (OK, is_packed, this, prepacked_weights)
    else
    (let weights_data = Data weights;
         input_hidden_size = size_t (weights_dims ! 0)
     in
    case PrePack_hidden_sizes this weights_dims of
      UndefinedBehaviour \<Rightarrow> UndefinedBehaviour
    | Throw msg \<Rightarrow> Throw msg
    | Return None \<Rightarrow> Return (OK, is_packed, this, prepacked_weights)
    | Return (Some (q_hidden_size, k_hidden_size, v_hidden_size)) \<Rightarrow>
       (let qkv_head_size = [q_hidden_size div size_t (num_heads this),
                             k_hidden_size div size_t (num_heads this),
                             v_hidden_size div size_t (num_heads this)];
            weight_matrix_col_size = q_hidden_size + k_hidden_size + v_hidden_size;
            (ok0, this0, shared0) =
              IsPackWeightsSuccessful mlas this 0 alloc (qkv_head_size ! 0) input_hidden_size
                (weights_data, 0) weight_matrix_col_size prepacked_weights;
            (ok1, this1, shared1) =
              (if \<not> ok0 then (False, this0, shared0)
               else IsPackWeightsSuccessful mlas this0 1 alloc (qkv_head_size ! 1) input_hidden_size
                      (weights_data, size_t (num_heads this) * (qkv_head_size ! 0))
                      weight_matrix_col_size shared0);
            (ok2, this2, shared2) =
              (if \<not> ok1 then (False, this1, shared1)
               else IsPackWeightsSuccessful mlas this1 2 alloc (qkv_head_size ! 2) input_hidden_size
                      (weights_data,
                       size_t (num_heads this) * (qkv_head_size ! 0 + qkv_head_size ! 1))
                      weight_matrix_col_size shared1)
        in
        if \<not> ok2 then
          (if prepacked_weights = None then
             (case FreePackedWeights (packed_weights this2) (length (qkv_hidden_sizes this)) of
                Return freed \<Rightarrow> Return (OK, is_packed, this2\<lparr>packed_weights := freed\<rparr>, shared2)
              | Throw msg \<Rightarrow> Throw msg
              | UndefinedBehaviour \<Rightarrow> UndefinedBehaviour)
           else Return (OK, is_packed, this2, shared2))
        else Return (OK, True, this2\<lparr>is_prepack := True\<rparr>, shared2)))))"

text \<open>
  Lines 526 to 540. \<open>used_shared_buffers\<close> is a reference that the function sets only
  for input 1. The result is the status, that flag, the kernel and the vector of
  buffers, whose first three elements are null after the moves.
\<close>

definition UseSharedPrePackedBuffers ::
  "Attention \<Rightarrow> Buffer option list \<Rightarrow> int \<Rightarrow> bool \<Rightarrow>
   (Status \<times> bool \<times> Attention \<times> Buffer option list) Outcome" where
  "UseSharedPrePackedBuffers this prepacked_buffers input_idx used_shared_buffers =
   (if 1 \<noteq> input_idx then Return (OK, used_shared_buffers, this, prepacked_buffers)
    else if length prepacked_buffers < 3 then UndefinedBehaviour
    else
      Return (OK, True,
              this\<lparr>packed_weights :=
                     (packed_weights this)[0 := prepacked_buffers ! 0, 1 := prepacked_buffers ! 1,
                                           2 := prepacked_buffers ! 2]\<rparr>,
              prepacked_buffers[0 := None, 1 := None, 2 := None]))"

subsection \<open>The projection loop of Compute\<close>

text \<open>
  The element type \<open>T\<close> is \<open>float\<close> in the source. Here it is any semiring: sums and
  products are exact, and rounding is outside the model.
\<close>

text \<open>
  \<open>memcpy(dst + d, src + s, n * sizeof(T))\<close>, counted in elements. The length of the
  destination does not change.
\<close>

definition memcpy :: "'a list \<Rightarrow> nat \<Rightarrow> 'a list \<Rightarrow> nat \<Rightarrow> nat \<Rightarrow> 'a list" where
  "memcpy dst d src s n =
     map (\<lambda>p. if d \<le> p \<and> p < d + n then src ! (s + (p - d)) else dst ! p) [0..<length dst]"

text \<open>
  Modelled from the spec: \<open>math::GemmEx\<close>, the general strided multiply-accumulate of the
  linear-algebra library, is not part of the sources. With no transposition it
  computes \<open>C := alpha * A * B + beta * C\<close> for the \<open>M \<times> K\<close> matrix at \<open>A + a\<close> with
  row stride \<open>lda\<close>, the \<open>K \<times> N\<close> matrix at \<open>B + b\<close> with row stride \<open>ldb\<close> and the
  \<open>M \<times> N\<close> matrix at \<open>C + c\<close> with row stride \<open>ldc\<close>.
\<close>

definition GemmEx ::
  "nat \<Rightarrow> nat \<Rightarrow> nat \<Rightarrow> 'a::semiring_1 \<Rightarrow> 'a list \<Rightarrow> nat \<Rightarrow> nat \<Rightarrow> 'a list \<Rightarrow> nat \<Rightarrow> nat \<Rightarrow>
   'a \<Rightarrow> 'a list \<Rightarrow> nat \<Rightarrow> nat \<Rightarrow> 'a list" where
  "GemmEx M N K alpha A a lda B b ldb beta C c ldc =
     map (\<lambda>p. if c \<le> p \<and> (p - c) div ldc < M \<and> (p - c) mod ldc < N then
                 alpha * sum_list (map (\<lambda>k. A ! (a + (p - c) div ldc * lda + k) *
                                             B ! (b + k * ldb + (p - c) mod ldc)) [0..<K])
                 + beta * C ! p
               else C ! p) [0..<length C]"

text \<open>
  Modelled from the spec: \<open>ThreadPool::TryParallelFor\<close> is not part of the sources. It
  partitions the index range, runs every unit exactly once and returns when all are
  done. The thread pool is the order in which it runs the units of a range of a
  given size; a unit that fails ends the call.
\<close>

type_synonym ThreadPool = "nat \<Rightarrow> nat list"

fun run_units :: "nat list \<Rightarrow> (nat \<Rightarrow> 's \<Rightarrow> 's Outcome) \<Rightarrow> 's \<Rightarrow> 's Outcome" where
  "run_units [] fn st = Return st"
| "run_units (i # rest) fn st =
     (case fn i st of
        Return st' \<Rightarrow> run_units rest fn st'
      | Throw msg \<Rightarrow> Throw msg
      | UndefinedBehaviour \<Rightarrow> UndefinedBehaviour)"

definition TryParallelFor :: "ThreadPool \<Rightarrow> nat \<Rightarrow> (nat \<Rightarrow> 's \<Rightarrow> 's Outcome) \<Rightarrow> 's \<Rightarrow> 's Outcome" where
  "TryParallelFor tp n fn st = run_units (tp n) fn st"

text \<open>The loop of lines 658 to 661: \<open>n\<close> rows are left and \<open>d\<close> is the destination offset.\<close>

fun broadcast_bias :: "nat \<Rightarrow> 'a list \<Rightarrow> nat \<Rightarrow> nat \<Rightarrow> nat \<Rightarrow> 'a list \<Rightarrow> 'a list" where
  "broadcast_bias 0 bias_data broadcast_data_src head_size d gemm_data = gemm_data"
| "broadcast_bias (Suc n) bias_data broadcast_data_src head_size d gemm_data =
     broadcast_bias n bias_data broadcast_data_src head_size (d + head_size)
       (memcpy gemm_data d bias_data broadcast_data_src head_size)"

text \<open>
  The body of the loop, lines 634 to 702, for the index \<open>i\<close>. The scratch allocation
  is one array; \<open>QKV\<close> holds the offsets of \<open>Q\<close>, \<open>K\<close> and \<open>V\<close> in it. The sizes and
  offsets are the \<open>int\<close>s of the source read as naturals. In packed mode the
  division \<open>weights_offset / head_size\<close> is undefined for a head size of 0, and so is
  reading through a null \<open>packed_weights_[qkv_index]\<close>.
\<close>

definition Compute_unit ::
  "('a::semiring_1) MLAS \<Rightarrow> Attention \<Rightarrow> nat \<Rightarrow> nat \<Rightarrow> nat \<Rightarrow> nat \<Rightarrow> nat \<Rightarrow> nat list \<Rightarrow> nat list \<Rightarrow>
   'a list \<Rightarrow> 'a list \<Rightarrow> 'a list \<Rightarrow> nat \<Rightarrow> 'a list \<Rightarrow> 'a list Outcome" where
  "Compute_unit mlas this sequence_length input_hidden_size q_hidden_size k_hidden_size
      v_hidden_size qkv_head_size QKV input_data weights_data bias_data i gemm_data =
   (let batch_index = (i div 3) div nat (num_heads this);
        head_index = (i div 3) mod nat (num_heads this);
        qkv_index = i mod 3;
        input_offset = batch_index * sequence_length * input_hidden_size;
        qkv_dest = QKV ! qkv_index;
        head_size = qkv_head_size ! qkv_index;
        bias_offset = qkv_index * q_hidden_size + head_index * head_size;
        weights_offset = (if \<not> is_prepack this then bias_offset else head_index * head_size);
        qkv_offset = (batch_index * nat (num_heads this) + head_index) * (sequence_length * head_size);
        gemm_data = broadcast_bias sequence_length bias_data bias_offset head_size
                      (qkv_dest + qkv_offset) gemm_data
    in
    if is_prepack this then
      (case packed_weights this ! qkv_index of
         None \<Rightarrow> UndefinedBehaviour
       | Some buf \<Rightarrow>
          if head_size = 0 then UndefinedBehaviour
          else
          (let packed_weight =
                 take (packed_weights_size this ! qkv_index)
                   (drop (packed_weights_size this ! qkv_index * (weights_offset div head_size)) buf)
           in Return (MlasGemm mlas sequence_length head_size input_hidden_size 1
                        input_data input_offset input_hidden_size packed_weight 1
                        gemm_data (qkv_dest + qkv_offset) head_size)))
    else
      Return (GemmEx sequence_length head_size input_hidden_size 1
                input_data input_offset input_hidden_size
                weights_data weights_offset (q_hidden_size + k_hidden_size + v_hidden_size) 1
                gemm_data (qkv_dest + qkv_offset) head_size))"

text \<open>Line 545: the weight input is read only when the kernel is not in packed mode.\<close>

definition Compute_weights :: "Attention \<Rightarrow> 'a Tensor \<Rightarrow> 'a Tensor option" where
  "Compute_weights this context_Input_1 = (if is_prepack this then None else Some context_Input_1)"

text \<open>
  Lines 543 to 705: \<open>Compute\<close> up to the end of the projection; the call of the
  attention-score engine that follows is outside the sources. The inputs 0, 1 and 2
  are required by the operator and are tensors; the others may be null. The output
  tensor and the allocator of the scratch space are taken as given.
  \<open>temp_space p\<close> is what the scratch allocation holds at element \<open>p\<close> before it is
  written. The result is the status of a failed validation, or the scratch array
  with the offsets of \<open>Q\<close>, \<open>K\<close> and \<open>V\<close> and the mask that \<open>CheckInputs\<close> left.
\<close>

definition Compute_projection ::
  "('a::semiring_1) MLAS \<Rightarrow> Attention \<Rightarrow> int \<Rightarrow> ThreadPool \<Rightarrow> (nat \<Rightarrow> 'a) \<Rightarrow>
   'a Tensor \<Rightarrow> 'a Tensor \<Rightarrow> 'a Tensor \<Rightarrow> 'a Tensor option \<Rightarrow> 'a Tensor option \<Rightarrow>
   'a Tensor option \<Rightarrow> 'a Tensor option \<Rightarrow> 'a Tensor option \<Rightarrow> 'a Tensor option \<Rightarrow>
   'a Tensor option \<Rightarrow> (Status + 'a list \<times> nat list \<times> 'a Tensor option) Outcome" where
  "Compute_projection mlas this indeterminate tp temp_space input context_Input_1 bias mask_index
      past extra_add_qk key val weight_key weight_value =
   (let weights = Compute_weights this context_Input_1;
        weights_shape = (case weights of Some w \<Rightarrow> Shape w | None \<Rightarrow> weight_shape this);
        (status, mask_index) =
           CheckInputs this indeterminate (Shape input) weights_shape (Shape bias) mask_index
             past extra_add_qk key val weight_key weight_value
    in
    if status \<noteq> OK then Return (Inl status)
    else
    (let shape = Shape input;
         batch_size = static_cast_int (shape ! 0);
         sequence_length = static_cast_int (shape ! 1);
         input_hidden_size = static_cast_int (shape ! 2);
         hidden_size =
           (if length (qkv_hidden_sizes this) = 0 then static_cast_int (weights_shape ! 1) sdiv 3
            else static_cast_int (qkv_hidden_sizes this ! 2));
         q_hidden_size =
           (if length (qkv_hidden_sizes this) = 0 then hidden_size
            else static_cast_int (qkv_hidden_sizes this ! 0));
         k_hidden_size =
           (if length (qkv_hidden_sizes this) = 0 then hidden_size
            else static_cast_int (qkv_hidden_sizes this ! 1));
         v_hidden_size =
           (if length (qkv_hidden_sizes this) = 0 then hidden_size
            else static_cast_int (qkv_hidden_sizes this ! 2));
         qkv_head_size = [q_hidden_size sdiv num_heads this, k_hidden_size sdiv num_heads this,
                          v_hidden_size sdiv num_heads this];
         qkv_hidden_size = q_hidden_size + k_hidden_size + v_hidden_size;
         gemm_data = map temp_space [0..<nat batch_size * nat sequence_length * nat qkv_hidden_size];
         Q = 0;
         K = Q + nat batch_size * nat sequence_length * nat q_hidden_size;
         V = K + nat batch_size * nat sequence_length * nat k_hidden_size;
         QKV = [Q, K, V];
         loop_len = 3 * batch_size * num_heads this;
         input_data = Data input;
         weights_data = (case weights of Some w \<Rightarrow> Data w | None \<Rightarrow> []);
         bias_data = Data bias
     in
     case TryParallelFor tp (nat loop_len)
            (Compute_unit mlas this (nat sequence_length) (nat input_hidden_size)
               (nat q_hidden_size) (nat k_hidden_size) (nat v_hidden_size)
               (map nat qkv_head_size) QKV input_data weights_data bias_data)
            gemm_data of
       Return gemm_data \<Rightarrow> Return (Inr (gemm_data, QKV, mask_index))
     | Throw msg \<Rightarrow> Throw msg
     | UndefinedBehaviour \<Rightarrow> UndefinedBehaviour))"

subsection \<open>The destination and the value of a unit\<close>




subsection \<open>Fixtures\<close>

text \<open>A kernel of the merged-weight configuration, and a tensor of zeros of a given shape.\<close>

definition merged_attrs :: "int \<Rightarrow> int list \<Rightarrow> AttentionBase" where
  "merged_attrs n sizes =
     \<lparr>num_heads = n, is_unidirectional = False, qkv_hidden_sizes = sizes, use_merged_weights = True\<rparr>"

definition zeros :: "TensorShape \<Rightarrow> int Tensor" where
  "zeros sh = \<lparr>Shape = sh, Data = replicate (nat (prod_list sh)) 0\<rparr>"

text \<open>
  A kernel as its constructor leaves it: no packed buffers, not in packed mode.
\<close>

definition fresh_kernel :: "int \<Rightarrow> int list \<Rightarrow> Attention" where
  "fresh_kernel n sizes =
     \<lparr>num_heads = n, is_unidirectional = False, qkv_hidden_sizes = sizes, use_merged_weights = True,
      packed_weights = [None, None, None], packed_weights_size = [0, 0, 0], is_prepack = False,
      weight_shape = []\<rparr>"

text \<open>
  A vendor library for elements that are bytes: a packed \<open>K \<times> N\<close> matrix is its rows one
  after the other and one byte of padding, which the pack routine does not write.
  The second library cannot pack a matrix of more than two columns.
\<close>

definition reference_mlas :: "8 word MLAS" where
  "reference_mlas =
     \<lparr>MlasGemmPackBSize = (\<lambda>N K. if N = 0 \<or> K = 0 then 0 else N * K + 1),
      MlasGemmPackB = (\<lambda>N K B b ldb window.
         take (length window)
           (map (\<lambda>p. B ! (b + (p div N) * ldb + p mod N)) [0..<N * K] @ drop (N * K) window)),
      MlasGemm = (\<lambda>M N K alpha A a lda PackedB beta C c ldc.
         GemmEx M N K alpha A a lda PackedB 0 N beta C c ldc)\<rparr>"

definition narrow_mlas :: "8 word MLAS" where
  "narrow_mlas =
     reference_mlas\<lparr>MlasGemmPackBSize := (\<lambda>N K. if N = 0 \<or> K = 0 \<or> 2 < N then 0 else N * K + 1)\<rparr>"





section \<open>Properties of CheckInputs\<close>

lemma if_neqI: "a \<noteq> z \<Longrightarrow> b \<noteq> z \<Longrightarrow> (if c then a else b) \<noteq> z"
  by simp

lemma case_option_neqI:
  "a \<noteq> z \<Longrightarrow> (\<And>x. f x \<noteq> z) \<Longrightarrow> (case v of None \<Rightarrow> a | Some x \<Rightarrow> f x) \<noteq> z"
  by (cases v) simp_all

lemma CheckInputs_hidden_sizes_not_OK:
  "CheckInputs_hidden_sizes this u b s d ws bs key val wk wv \<noteq> Inl OK"
  unfolding CheckInputs_hidden_sizes_def Let_def
  by (intro if_neqI case_option_neqI; simp)

lemma CheckInputs_past_not_OK: "CheckInputs_past this b hk hv t past \<noteq> Inl OK"
  unfolding CheckInputs_past_def Let_def
  by (intro if_neqI case_option_neqI; simp)

lemma CheckInputs_mask_not_OK: "CheckInputs_mask this b s t m \<noteq> Inl OK"
  unfolding CheckInputs_mask_def Let_def
  by (intro if_neqI case_option_neqI; simp)

lemma CheckInputs_mask_result:
  assumes "CheckInputs_mask this b s t mi = Inr m'"
  shows "m' = mi \<or>
         (m' = None \<and> (\<exists>m. mi = Some m \<and> length (Shape m) = 2 \<and> Shape m ! 1 = 1 \<and>
                             (Shape m ! 0 = b \<or> Shape m ! 0 = 1)))"
  using assms unfolding CheckInputs_mask_def Let_def
  by (auto split: option.splits if_splits)

lemma CheckInputs_mask_broadcast:
  assumes "length (Shape m) = 2" and "Shape m ! 1 = 1" and "Shape m ! 0 = b \<or> Shape m ! 0 = 1"
    and "\<not> (Shape m ! 0 = b \<and> t = 1)"
  shows "CheckInputs_mask this b s t (Some m) = Inr None"
  using assms unfolding CheckInputs_mask_def Let_def by auto

text \<open>
  C1. With merged weights and no \<open>qkv_hidden_sizes\<close> attribute the three hidden sizes
  should all be a third of the bias length. Evaluated on the scenario of the
  specification (input \<open>[1,2,4]\<close>, weight \<open>[4,12]\<close>, bias of length 12, two heads),
  \<open>hidden_size_q\<close> and \<open>hidden_size_k\<close> are 4, but \<open>hidden_size_v\<close> is the indeterminate
  value of line 160, not 4; when that value is 0 the call fails at the check of
  line 250.
\<close>

theorem CheckInputs_merged_hidden_size_v_indeterminate:
  "CheckInputs_hidden_sizes (merged_attrs 2 []) indeterminate 1 2 4 [4, 12] [12]
      (None :: int Tensor option) None None None = Inr (4, 4, indeterminate, 2) \<and>
   CheckInputs (merged_attrs 2 []) 0 [1, 2, 4] [4, 12] [12]
      (None :: int Tensor option) None None None None None None =
     (MAKE_STATUS INVALID_ARGUMENT
        ''Input 'bias' dimension 0 should have same length as sum of Q/K/V hidden sizes'' [], None)"
  by (simp add: CheckInputs_def CheckInputs_hidden_sizes_def merged_attrs_def Let_def)

text \<open>
  C5, as stated, fails: a 2D mask of shape \<open>[batch, 1]\<close> is kept, not set to null, when
  \<open>total_sequence_length\<close> is 1, because it then has the regular shape
  \<open>[batch, total_sequence_length]\<close> and line 297 accepts it before line 299 is reached.
\<close>

theorem CheckInputs_mask_batch_by_1_kept:
  "CheckInputs (merged_attrs 2 [4, 4, 4]) 0 [2, 1, 4] [4, 12] [12]
      (Some \<lparr>Shape = [2, 1], Data = [1, 1 :: int]\<rparr>) None None None None None None =
     (OK, Some \<lparr>Shape = [2, 1], Data = [1, 1]\<rparr>)"
  by (simp add: CheckInputs_def CheckInputs_hidden_sizes_def CheckInputs_past_def
      CheckInputs_mask_def CheckInputs_extra_add_qk_def merged_attrs_def Let_def)

text \<open>
  C5, amended. The operands of \<open>CheckInputs\<close> are constant apart from the reference
  \<open>mask_index\<close>, and the call leaves that reference as it was or null; it is null
  afterwards only for a 2D mask of shape \<open>[batch, 1]\<close> or \<open>[1, 1]\<close>. When all checks
  before the mask pass, such a mask that is not exactly
  \<open>[batch, total_sequence_length]\<close> is set to null instead of being rejected, and the
  status of the call is that of the remaining checks of \<open>extra_add_qk\<close>: success when
  \<open>extra_add_qk\<close> is absent.
\<close>

theorem CheckInputs_mask_index_frame:
  fixes mask_index :: "'a Tensor option"
  shows
  "(snd (CheckInputs this u input_shape weights_shape bias_shape mask_index past extra_add_qk
           key val weight_key weight_value) = mask_index \<or>
    (snd (CheckInputs this u input_shape weights_shape bias_shape mask_index past extra_add_qk
            key val weight_key weight_value) = None \<and>
     (\<exists>m. mask_index = Some m \<and> length (Shape m) = 2 \<and> Shape m ! 1 = 1 \<and>
          (Shape m ! 0 = input_shape ! 0 \<or> Shape m ! 0 = 1)))) \<and>
   (\<not> (past \<noteq> None \<and> extra_add_qk \<noteq> None) \<and>
    length input_shape = 3 \<and> length weights_shape = 2 \<and> weights_shape ! 0 = input_shape ! 2 \<and>
    length bias_shape = 1 \<and> bias_shape ! 0 = weights_shape ! 1 \<and>
    CheckInputs_hidden_sizes this u (input_shape ! 0) (input_shape ! 1) (input_shape ! 2)
      weights_shape bias_shape key val weight_key weight_value = Inr (hq, hk, hv, tsl) \<and>
    bias_shape ! 0 = hq + hk + hv \<and>
    CheckInputs_past this (input_shape ! 0) hk hv tsl past = Inr total_sequence_length \<and>
    mask_index = Some m \<and> length (Shape m) = 2 \<and> Shape m ! 1 = 1 \<and>
    (Shape m ! 0 = input_shape ! 0 \<or> Shape m ! 0 = 1) \<and>
    \<not> (Shape m ! 0 = input_shape ! 0 \<and> total_sequence_length = 1)
    \<longrightarrow>
    CheckInputs this u input_shape weights_shape bias_shape mask_index past extra_add_qk
      key val weight_key weight_value =
      (CheckInputs_extra_add_qk this (input_shape ! 0) (input_shape ! 1) extra_add_qk, None) \<and>
    (extra_add_qk = None \<longrightarrow>
     CheckInputs this u input_shape weights_shape bias_shape mask_index past extra_add_qk
       key val weight_key weight_value = (OK, None)))"
proof (intro conjI impI)
  show "snd (CheckInputs this u input_shape weights_shape bias_shape mask_index past extra_add_qk
           key val weight_key weight_value) = mask_index \<or>
    (snd (CheckInputs this u input_shape weights_shape bias_shape mask_index past extra_add_qk
            key val weight_key weight_value) = None \<and>
     (\<exists>m. mask_index = Some m \<and> length (Shape m) = 2 \<and> Shape m ! 1 = 1 \<and>
          (Shape m ! 0 = input_shape ! 0 \<or> Shape m ! 0 = 1)))"
    unfolding CheckInputs_def Let_def
    by (auto split: sum.splits prod.splits dest: CheckInputs_mask_result)
next
  assume h: "\<not> (past \<noteq> None \<and> extra_add_qk \<noteq> None) \<and>
    length input_shape = 3 \<and> length weights_shape = 2 \<and> weights_shape ! 0 = input_shape ! 2 \<and>
    length bias_shape = 1 \<and> bias_shape ! 0 = weights_shape ! 1 \<and>
    CheckInputs_hidden_sizes this u (input_shape ! 0) (input_shape ! 1) (input_shape ! 2)
      weights_shape bias_shape key val weight_key weight_value = Inr (hq, hk, hv, tsl) \<and>
    bias_shape ! 0 = hq + hk + hv \<and>
    CheckInputs_past this (input_shape ! 0) hk hv tsl past = Inr total_sequence_length \<and>
    mask_index = Some m \<and> length (Shape m) = 2 \<and> Shape m ! 1 = 1 \<and>
    (Shape m ! 0 = input_shape ! 0 \<or> Shape m ! 0 = 1) \<and>
    \<not> (Shape m ! 0 = input_shape ! 0 \<and> total_sequence_length = 1)"
  then have mk: "CheckInputs_mask this (input_shape ! 0) (input_shape ! 1) total_sequence_length
                   (Some m) = Inr None"
    by (intro CheckInputs_mask_broadcast) auto
  from h mk show r: "CheckInputs this u input_shape weights_shape bias_shape mask_index past
      extra_add_qk key val weight_key weight_value =
      (CheckInputs_extra_add_qk this (input_shape ! 0) (input_shape ! 1) extra_add_qk, None)"
    by (simp add: CheckInputs_def Let_def)
  assume "extra_add_qk = None"
  with r show "CheckInputs this u input_shape weights_shape bias_shape mask_index past
      extra_add_qk key val weight_key weight_value = (OK, None)"
    by (simp add: CheckInputs_extra_add_qk_def)
qed

theorem CheckInputs_mask_index_frame_witness:
  "CheckInputs_hidden_sizes (merged_attrs 2 [4, 4, 4]) 0 2 3 4 [4, 12] [12]
      (None :: int Tensor option) None None None = Inr (4, 4, 4, 3) \<and>
   CheckInputs_past (merged_attrs 2 [4, 4, 4]) 2 4 4 3 (None :: int Tensor option) = Inr 3 \<and>
   CheckInputs (merged_attrs 2 [4, 4, 4]) 0 [2, 3, 4] [4, 12] [12]
      (Some \<lparr>Shape = [1, 1], Data = [1 :: int]\<rparr>) None None None None None None = (OK, None)"
  using CheckInputs_mask_index_frame
    [where this = "merged_attrs 2 [4, 4, 4]" and u = 0 and input_shape = "[2, 3, 4]"
       and weights_shape = "[4, 12]" and bias_shape = "[12]"
       and mask_index = "Some \<lparr>Shape = [1, 1], Data = [1 :: int]\<rparr>"
       and m = "\<lparr>Shape = [1, 1], Data = [1 :: int]\<rparr>"
       and past = None and extra_add_qk = None and key = None and val = None
       and weight_key = None and weight_value = None
       and hq = 4 and hk = 4 and hv = 4 and tsl = 3 and total_sequence_length = 3]
  by (simp add: CheckInputs_hidden_sizes_def CheckInputs_past_def CheckInputs_extra_add_qk_def
      merged_attrs_def)

text \<open>
  C6. When both \<open>past\<close> and \<open>extra_add_qk\<close> are supplied, \<open>CheckInputs\<close> returns the
  status of line 124 whatever the other operands are, so before any other check; it
  leaves \<open>mask_index\<close> as it was.
\<close>

theorem CheckInputs_past_and_extra_add_qk:
  assumes "past \<noteq> None" and "extra_add_qk \<noteq> None"
  shows "CheckInputs this u input_shape weights_shape bias_shape mask_index past extra_add_qk
           key val weight_key weight_value =
         (MAKE_STATUS INVALID_ARGUMENT ''Attention cannot have past sequence and extra add qk'' [],
          mask_index)"
  using assms by (simp add: CheckInputs_def)

theorem CheckInputs_past_and_extra_add_qk_witness:
  "Some (zeros [2, 1, 2, 3, 2]) \<noteq> None \<and> Some (zeros [1, 2, 2, 2]) \<noteq> None \<and>
   CheckInputs (merged_attrs 2 []) 0 [1, 2, 4] [4, 12] [12] None
     (Some (zeros [2, 1, 2, 3, 2])) (Some (zeros [1, 2, 2, 2])) None None None None =
   (MAKE_STATUS INVALID_ARGUMENT ''Attention cannot have past sequence and extra add qk'' [], None)"
  using CheckInputs_past_and_extra_add_qk
    [of "Some (zeros [2, 1, 2, 3, 2])" "Some (zeros [1, 2, 2, 2])" "merged_attrs 2 []" 0
        "[1, 2, 4]" "[4, 12]" "[12]" None None None None None]
  by simp

lemma CheckInputs_OK_sum:
  assumes "fst (CheckInputs this u input_shape weights_shape bias_shape mask_index past
                  extra_add_qk key val weight_key weight_value) = OK"
  shows "\<exists>hq hk hv tsl.
           CheckInputs_hidden_sizes this u (input_shape ! 0) (input_shape ! 1) (input_shape ! 2)
             weights_shape bias_shape key val weight_key weight_value = Inr (hq, hk, hv, tsl) \<and>
           bias_shape ! 0 = hq + hk + hv"
  using assms CheckInputs_hidden_sizes_not_OK
    [of this u "input_shape ! 0" "input_shape ! 1" "input_shape ! 2" weights_shape
        bias_shape key val weight_key weight_value]
  by (auto simp add: CheckInputs_def Let_def split: if_splits sum.splits prod.splits)

text \<open>
  C7. When the checks before line 249 pass and the resolved hidden sizes do not add
  up to the bias length, \<open>CheckInputs\<close> returns the status of line 251, whose text names
  \<open>'bias'\<close>; and whenever \<open>CheckInputs\<close> succeeds, the resolved hidden sizes add up to
  the bias length.
\<close>

theorem CheckInputs_bias_length_is_sum:
  "(\<not> (past \<noteq> None \<and> extra_add_qk \<noteq> None) \<and>
    length input_shape = 3 \<and> length weights_shape = 2 \<and> weights_shape ! 0 = input_shape ! 2 \<and>
    length bias_shape = 1 \<and> bias_shape ! 0 = weights_shape ! 1 \<and>
    CheckInputs_hidden_sizes this u (input_shape ! 0) (input_shape ! 1) (input_shape ! 2)
      weights_shape bias_shape key val weight_key weight_value = Inr (hq, hk, hv, tsl) \<and>
    bias_shape ! 0 \<noteq> hq + hk + hv
    \<longrightarrow>
    CheckInputs this u input_shape weights_shape bias_shape mask_index past extra_add_qk
      key val weight_key weight_value =
      (MAKE_STATUS INVALID_ARGUMENT
         ''Input 'bias' dimension 0 should have same length as sum of Q/K/V hidden sizes'' [],
       mask_index) \<and>
    names_operand ''bias''
      (fst (CheckInputs this u input_shape weights_shape bias_shape mask_index past extra_add_qk
              key val weight_key weight_value))) \<and>
   (fst (CheckInputs this' u' input_shape' weights_shape' bias_shape' mask_index' past'
           extra_add_qk' key' val' weight_key' weight_value') = OK
    \<longrightarrow>
    (\<exists>hq hk hv tsl.
       CheckInputs_hidden_sizes this' u' (input_shape' ! 0) (input_shape' ! 1) (input_shape' ! 2)
         weights_shape' bias_shape' key' val' weight_key' weight_value' = Inr (hq, hk, hv, tsl) \<and>
       bias_shape' ! 0 = hq + hk + hv))"
proof (intro conjI impI)
  assume h: "\<not> (past \<noteq> None \<and> extra_add_qk \<noteq> None) \<and>
    length input_shape = 3 \<and> length weights_shape = 2 \<and> weights_shape ! 0 = input_shape ! 2 \<and>
    length bias_shape = 1 \<and> bias_shape ! 0 = weights_shape ! 1 \<and>
    CheckInputs_hidden_sizes this u (input_shape ! 0) (input_shape ! 1) (input_shape ! 2)
      weights_shape bias_shape key val weight_key weight_value = Inr (hq, hk, hv, tsl) \<and>
    bias_shape ! 0 \<noteq> hq + hk + hv"
  then show r: "CheckInputs this u input_shape weights_shape bias_shape mask_index past
      extra_add_qk key val weight_key weight_value =
      (MAKE_STATUS INVALID_ARGUMENT
         ''Input 'bias' dimension 0 should have same length as sum of Q/K/V hidden sizes'' [],
       mask_index)"
    by (simp add: CheckInputs_def Let_def)
  have "names_operand ''bias'' (MAKE_STATUS INVALID_ARGUMENT
         ''Input 'bias' dimension 0 should have same length as sum of Q/K/V hidden sizes'' [])"
    unfolding names_operand_def quoted_def by (simp add: sublist_Cons_right)
  with r show "names_operand ''bias''
      (fst (CheckInputs this u input_shape weights_shape bias_shape mask_index past extra_add_qk
              key val weight_key weight_value))"
    by simp
next
  assume "fst (CheckInputs this' u' input_shape' weights_shape' bias_shape' mask_index' past'
           extra_add_qk' key' val' weight_key' weight_value') = OK"
  then show "\<exists>hq hk hv tsl.
       CheckInputs_hidden_sizes this' u' (input_shape' ! 0) (input_shape' ! 1) (input_shape' ! 2)
         weights_shape' bias_shape' key' val' weight_key' weight_value' = Inr (hq, hk, hv, tsl) \<and>
       bias_shape' ! 0 = hq + hk + hv"
    by (rule CheckInputs_OK_sum)
qed

text \<open>
  The witness takes the mismatch of the specification, \<open>qkv_hidden_sizes = [64,64,64]\<close>
  with a bias of length 300, and for the second part the sizes \<open>[4,4,4]\<close> with a bias
  of length 12.
\<close>

theorem CheckInputs_bias_length_is_sum_witness:
  "CheckInputs_hidden_sizes (merged_attrs 8 [64, 64, 64]) 0 1 2 16 [16, 300] [300]
      (None :: int Tensor option) None None None = Inr (64, 64, 64, 2) \<and>
   (300 :: int) \<noteq> 64 + 64 + 64 \<and>
   CheckInputs (merged_attrs 8 [64, 64, 64]) 0 [1, 2, 16] [16, 300] [300]
      (None :: int Tensor option) None None None None None None =
     (MAKE_STATUS INVALID_ARGUMENT
        ''Input 'bias' dimension 0 should have same length as sum of Q/K/V hidden sizes'' [], None) \<and>
   names_operand ''bias''
     (fst (CheckInputs (merged_attrs 8 [64, 64, 64]) 0 [1, 2, 16] [16, 300] [300]
        (None :: int Tensor option) None None None None None None)) \<and>
   fst (CheckInputs (merged_attrs 2 [4, 4, 4]) 0 [1, 2, 4] [4, 12] [12]
      (None :: int Tensor option) None None None None None None) = OK \<and>
   (\<exists>hq hk hv tsl.
      CheckInputs_hidden_sizes (merged_attrs 2 [4, 4, 4]) 0 1 2 4 [4, 12] [12]
        (None :: int Tensor option) None None None = Inr (hq, hk, hv, tsl) \<and>
      (12 :: int) = hq + hk + hv)"
proof -
  have hs: "CheckInputs_hidden_sizes (merged_attrs 8 [64, 64, 64]) 0 1 2 16 [16, 300] [300]
      (None :: int Tensor option) None None None = Inr (64, 64, 64, 2)"
    by (simp add: CheckInputs_hidden_sizes_def merged_attrs_def)
  have ok: "fst (CheckInputs (merged_attrs 2 [4, 4, 4]) 0 [1, 2, 4] [4, 12] [12]
      (None :: int Tensor option) None None None None None None) = OK"
    by (simp add: CheckInputs_def CheckInputs_hidden_sizes_def CheckInputs_past_def
        CheckInputs_mask_def CheckInputs_extra_add_qk_def merged_attrs_def)
  note T = CheckInputs_bias_length_is_sum
        [where this = "merged_attrs 8 [64, 64, 64]" and u = 0 and input_shape = "[1, 2, 16]"
           and weights_shape = "[16, 300]" and bias_shape = "[300]"
           and mask_index = "None :: int Tensor option"
           and past = None and extra_add_qk = None and key = None and val = None
           and weight_key = None and weight_value = None
           and hq = 64 and hk = 64 and hv = 64 and tsl = 2
           and this' = "merged_attrs 2 [4, 4, 4]" and u' = 0 and input_shape' = "[1, 2, 4]"
           and weights_shape' = "[4, 12]" and bias_shape' = "[12]"
           and mask_index' = "None :: int Tensor option"
           and past' = None and extra_add_qk' = None and key' = None and val' = None
           and weight_key' = None and weight_value' = None]
  have a: "CheckInputs (merged_attrs 8 [64, 64, 64]) 0 [1, 2, 16] [16, 300] [300]
      (None :: int Tensor option) None None None None None None =
     (MAKE_STATUS INVALID_ARGUMENT
        ''Input 'bias' dimension 0 should have same length as sum of Q/K/V hidden sizes'' [], None) \<and>
   names_operand ''bias''
     (fst (CheckInputs (merged_attrs 8 [64, 64, 64]) 0 [1, 2, 16] [16, 300] [300]
        (None :: int Tensor option) None None None None None None))"
    by (rule T [THEN conjunct1, THEN mp]) (simp add: hs)
  have b: "\<exists>hq hk hv tsl.
      CheckInputs_hidden_sizes (merged_attrs 2 [4, 4, 4]) 0 1 2 4 [4, 12] [12]
        (None :: int Tensor option) None None None = Inr (hq, hk, hv, tsl) \<and>
      (12 :: int) = hq + hk + hv"
    using T [THEN conjunct2, THEN mp, OF ok] by simp
  show ?thesis
  proof (intro conjI)
    show "(300 :: int) \<noteq> 64 + 64 + 64" by simp
  qed (rule hs a [THEN conjunct1] a [THEN conjunct2] ok b)+
qed

section \<open>Properties of GetPresent\<close>

text \<open>
  C8. For a past state that is absent or of rank 5, the shape that \<open>GetPresent\<close> asks
  the output binding for is \<open>[2, batch, num_heads, past_len + sequence_length,
  head_size]\<close>, where \<open>past_len\<close> is dimension 3 of the past state and 0 without one.
  The call throws exactly when a past state is given and the binding has no tensor
  for output 1; in every other case it returns what the binding holds. It never
  returns a status.
\<close>

theorem GetPresent_shape_and_throw:
  assumes "past = None \<or> length (Shape (the past)) = 5"
  shows "GetPresent_dims this past batch_size head_size sequence_length past_sequence_length =
           Return ([2, batch_size, num_heads this,
                    sequence_length + (case past of None \<Rightarrow> 0 | Some p \<Rightarrow> Shape p ! 3),
                    head_size],
                   (case past of None \<Rightarrow> past_sequence_length
                    | Some p \<Rightarrow> static_cast_int (Shape p ! 3))) \<and>
         ((\<exists>msg. GetPresent this context_Output past batch_size head_size sequence_length
                   past_sequence_length = Throw msg) \<longleftrightarrow>
          (past \<noteq> None \<and>
           context_Output 1 [2, batch_size, num_heads this,
                             sequence_length + (case past of None \<Rightarrow> 0 | Some p \<Rightarrow> Shape p ! 3),
                             head_size] = None)) \<and>
         (\<not> (past \<noteq> None \<and>
             context_Output 1 [2, batch_size, num_heads this,
                               sequence_length + (case past of None \<Rightarrow> 0 | Some p \<Rightarrow> Shape p ! 3),
                               head_size] = None) \<longrightarrow>
          GetPresent this context_Output past batch_size head_size sequence_length
            past_sequence_length =
          Return (context_Output 1 [2, batch_size, num_heads this,
                                    sequence_length + (case past of None \<Rightarrow> 0 | Some p \<Rightarrow> Shape p ! 3),
                                    head_size],
                  (case past of None \<Rightarrow> past_sequence_length
                   | Some p \<Rightarrow> static_cast_int (Shape p ! 3))))"
proof -
  have d: "GetPresent_dims this past batch_size head_size sequence_length past_sequence_length =
           Return ([2, batch_size, num_heads this,
                    sequence_length + (case past of None \<Rightarrow> 0 | Some p \<Rightarrow> Shape p ! 3),
                    head_size],
                   (case past of None \<Rightarrow> past_sequence_length
                    | Some p \<Rightarrow> static_cast_int (Shape p ! 3)))"
    using assms by (auto simp: GetPresent_dims_def Let_def split: option.splits)
  show ?thesis
    unfolding GetPresent_def d by (auto simp: Let_def)
qed

text \<open>
  The witness is the example of the specification: batch 2, four heads, head size 8,
  sequence length 5 and a past state of length 3 give the shape \<open>[2,2,4,8,8]\<close>; with
  no tensor bound to output 1 the call throws.
\<close>

theorem GetPresent_shape_and_throw_witness:
  "length (Shape (the (Some (zeros [2, 2, 4, 3, 8])))) = 5 \<and>
   GetPresent_dims (merged_attrs 4 []) (Some (zeros [2, 2, 4, 3, 8])) 2 8 5 0 =
     Return ([2, 2, 4, 8, 8], 3) \<and>
   GetPresent (merged_attrs 4 []) (\<lambda>i sh. None) (Some (zeros [2, 2, 4, 3, 8])) 2 8 5 0 =
     Throw ''Expect to have present state output when past state input is given'' \<and>
   GetPresent (merged_attrs 4 []) (\<lambda>i sh. Some (zeros sh)) (Some (zeros [2, 2, 4, 3, 8])) 2 8 5 0 =
     Return (Some (zeros [2, 2, 4, 8, 8]), 3)"
proof -
  have l: "Some (zeros [2, 2, 4, 3, 8]) = None \<or>
           length (Shape (the (Some (zeros [2, 2, 4, 3, 8])))) = 5"
    by (simp add: zeros_def)
  have s: "static_cast_int 3 = 3"
    by (simp add: static_cast_int_def)
  show ?thesis
    using GetPresent_shape_and_throw [OF l, of "merged_attrs 4 []" 2 8 5 0 "\<lambda>i sh. None"]
      GetPresent_shape_and_throw [OF l, of "merged_attrs 4 []" 2 8 5 0 "\<lambda>i sh. Some (zeros sh)"]
    by (auto simp: zeros_def merged_attrs_def s GetPresent_def)
qed

section \<open>Properties of pre-packing\<close>

lemma memset_AllocArray: "memset (AllocArray alloc n m) 0 (n * m) = replicate (n * m) 0"
  by (simp add: memset_def AllocArray_def)

lemma IsPackWeightsSuccessful_alloc:
  "IsPackWeightsSuccessful mlas this i alloc1 hs D wd ldb sh =
   IsPackWeightsSuccessful mlas this i alloc2 hs D wd ldb sh"
  by (cases sh) (simp_all add: IsPackWeightsSuccessful_def memset_AllocArray Let_def)

lemma IsPackWeightsSuccessful_fails:
  "MlasGemmPackBSize mlas hs D = 0 \<Longrightarrow>
   IsPackWeightsSuccessful mlas this i alloc hs D wd ldb sh = (False, this, sh)"
  by (simp add: IsPackWeightsSuccessful_def)

lemma IsPackWeightsSuccessful_owned:
  "MlasGemmPackBSize mlas hs D \<noteq> 0 \<Longrightarrow>
   IsPackWeightsSuccessful mlas this i alloc hs D wd ldb None =
   (True,
    this\<lparr>packed_weights := (packed_weights this)
            [i := Some (pack_heads mlas hs D (fst wd) ldb (MlasGemmPackBSize mlas hs D)
                          (size_t (num_heads this)) (snd wd) 0
                          (replicate (MlasGemmPackBSize mlas hs D * size_t (num_heads this)) 0))],
          packed_weights_size := (packed_weights_size this)[i := MlasGemmPackBSize mlas hs D]\<rparr>,
    None)"
  by (simp add: IsPackWeightsSuccessful_def memset_AllocArray Let_def)

lemma IsPackWeightsSuccessful_flag:
  "IsPackWeightsSuccessful mlas this i alloc hs D wd ldb sh = (ok, this', sh') \<Longrightarrow>
   is_prepack this' = is_prepack this \<and> num_heads this' = num_heads this \<and>
   (ok \<longleftrightarrow> MlasGemmPackBSize mlas hs D \<noteq> 0)"
  by (cases sh) (auto simp add: IsPackWeightsSuccessful_def Let_def split: if_splits)

lemma FreePackedWeights_3: "length a = 3 \<Longrightarrow> FreePackedWeights a 3 = Return [None, None, None]"
  by (cases a; cases "tl a"; cases "tl (tl a)";
      simp add: FreePackedWeights_def numeral_3_eq_3 upt_rec)

lemma FreePackedWeights_0: "FreePackedWeights a 0 = Return a"
  by (simp add: FreePackedWeights_def)

lemma PrePack_hidden_sizes_weight_shape:
  "PrePack_hidden_sizes (this\<lparr>weight_shape := x\<rparr>) d = PrePack_hidden_sizes this d"
  by (simp add: PrePack_hidden_sizes_def Let_def)

lemma list_update_3_take:
  "length a = 3 \<Longrightarrow> \<not> length b < 3 \<Longrightarrow>
   a[0 := b ! 0, Suc 0 := b ! Suc 0, 2 := b ! 2] = take 3 b"
  by (cases a; cases "tl a"; cases "tl (tl a)"; cases b; cases "tl b"; cases "tl (tl b)"; simp)

text \<open>
  C9. The result of \<open>PrePack\<close>, and with it every byte of the three packed buffers,
  padding included, does not depend on what the allocated memory held: two runs
  on the same weights with the same kernel give the same buffers whatever the
  allocator returns, because line 434 sets all of the allocation to zero before
  the pack routine writes to it.
\<close>

theorem PrePack_deterministic:
  "PrePack mlas this weights input_idx alloc1 prepacked_weights =
   PrePack mlas this weights input_idx alloc2 prepacked_weights"
  unfolding PrePack_def
  by (simp only: IsPackWeightsSuccessful_alloc [of _ _ _ alloc1 _ _ _ _ _ alloc2])

text \<open>
  C4. The attribute \<open>qkv_hidden_sizes\<close> is absent or has three elements, the kernel
  has its three buffer slots, \<open>PrePack\<close> is called for input 1 with a weight of rank
  2 and no shared record, it resolves the hidden sizes, and the size function
  reports 0 for one of the three head sizes. Then \<open>PrePack\<close> returns success with
  \<open>is_packed\<close> false, leaves the packed-mode flag as it was, and keeps no buffer
  that it allocated: with the attribute present all three slots are null, and
  with the attribute absent the three head sizes are equal, so the first pack is
  the one that fails, nothing was allocated and the slots are as before.
\<close>

theorem PrePack_pack_failure_releases_buffers:
  assumes "0 < num_heads this"
    and "length (Shape weights) = 2"
    and "length (qkv_hidden_sizes this) = 0 \<or> length (qkv_hidden_sizes this) = 3"
    and "length (packed_weights this) = 3"
    and "PrePack_hidden_sizes this (Shape weights) =
           Return (Some (q_hidden_size, k_hidden_size, v_hidden_size))"
    and "MlasGemmPackBSize mlas (q_hidden_size div size_t (num_heads this))
           (size_t (Shape weights ! 0)) = 0 \<or>
         MlasGemmPackBSize mlas (k_hidden_size div size_t (num_heads this))
           (size_t (Shape weights ! 0)) = 0 \<or>
         MlasGemmPackBSize mlas (v_hidden_size div size_t (num_heads this))
           (size_t (Shape weights ! 0)) = 0"
  shows "\<exists>this'. PrePack mlas this weights 1 alloc None = Return (OK, False, this', None) \<and>
           is_prepack this' = is_prepack this \<and>
           packed_weights this' =
             (if qkv_hidden_sizes this = [] then packed_weights this else [None, None, None])"
proof (cases "qkv_hidden_sizes this = []")
  case True
  with assms(5) have e: "k_hidden_size = q_hidden_size" "v_hidden_size = q_hidden_size"
    by (auto simp: PrePack_hidden_sizes_def Let_def split: if_splits)
  with assms(6) have f: "MlasGemmPackBSize mlas (q_hidden_size div size_t (num_heads this))
                           (size_t (Shape weights ! 0)) = 0"
    by auto
  show ?thesis
    using True assms(2,5) e f
    by (simp add: PrePack_def Let_def PrePack_hidden_sizes_weight_shape
        IsPackWeightsSuccessful_fails FreePackedWeights_0)
next
  case False
  with assms(3) have l: "length (qkv_hidden_sizes this) = 3"
    by auto
  show ?thesis
  proof (cases "MlasGemmPackBSize mlas (q_hidden_size div size_t (num_heads this))
                  (size_t (Shape weights ! 0)) = 0")
    case True
    then show ?thesis
      using False l assms(2,4,5)
      by (simp add: PrePack_def Let_def PrePack_hidden_sizes_weight_shape
          IsPackWeightsSuccessful_fails FreePackedWeights_3)
  next
    case q0: False
    show ?thesis
    proof (cases "MlasGemmPackBSize mlas (k_hidden_size div size_t (num_heads this))
                    (size_t (Shape weights ! 0)) = 0")
      case True
      then show ?thesis
        using q0 False l assms(2,4,5)
        by (simp add: PrePack_def Let_def PrePack_hidden_sizes_weight_shape
            IsPackWeightsSuccessful_fails IsPackWeightsSuccessful_owned FreePackedWeights_3)
    next
      case k0: False
      with q0 assms(6) have "MlasGemmPackBSize mlas (v_hidden_size div size_t (num_heads this))
                               (size_t (Shape weights ! 0)) = 0"
        by auto
      then show ?thesis
        using q0 k0 False l assms(2,4,5)
        by (simp add: PrePack_def Let_def PrePack_hidden_sizes_weight_shape
            IsPackWeightsSuccessful_fails IsPackWeightsSuccessful_owned FreePackedWeights_3)
    qed
  qed
qed

text \<open>
  The witness: one head, \<open>qkv_hidden_sizes = [2,2,4]\<close> and a library that cannot pack
  four columns. The packs of Q and K succeed, the pack of V fails, and the two
  buffers are released.
\<close>

theorem PrePack_pack_failure_releases_buffers_witness:
  "PrePack_hidden_sizes (fresh_kernel 1 [2, 2, 4]) [1, 8] = Return (Some (2, 2, 4)) \<and>
   MlasGemmPackBSize narrow_mlas (2 div size_t 1) (size_t 1) \<noteq> 0 \<and>
   MlasGemmPackBSize narrow_mlas (4 div size_t 1) (size_t 1) = 0 \<and>
   (\<exists>this'. PrePack narrow_mlas (fresh_kernel 1 [2, 2, 4])
              \<lparr>Shape = [1, 8], Data = [1, 2, 3, 4, 5, 6, 7, 8]\<rparr> 1 (\<lambda>p. 255) None =
              Return (OK, False, this', None) \<and>
            is_prepack this' = False \<and> packed_weights this' = [None, None, None])"
proof -
  have n: "0 < num_heads (fresh_kernel 1 [2, 2, 4])"
    and w: "length (Shape \<lparr>Shape = [1, 8], Data = [1, 2, 3, 4, 5, 6, 7, 8 :: 8 word]\<rparr>) = 2"
    and a: "length (qkv_hidden_sizes (fresh_kernel 1 [2, 2, 4])) = 0 \<or>
            length (qkv_hidden_sizes (fresh_kernel 1 [2, 2, 4])) = 3"
    and p: "length (packed_weights (fresh_kernel 1 [2, 2, 4])) = 3"
    by (simp_all add: fresh_kernel_def)
  have s: "size_t 1 = 1" "size_t 2 = 2" "size_t 4 = 4"
    by (simp_all add: size_t_def)
  have h: "PrePack_hidden_sizes (fresh_kernel 1 [2, 2, 4])
             (Shape \<lparr>Shape = [1, 8], Data = [1, 2, 3, 4, 5, 6, 7, 8 :: 8 word]\<rparr>) =
           Return (Some (2, 2, 4))"
    by (simp add: PrePack_hidden_sizes_def fresh_kernel_def s)
  have f: "MlasGemmPackBSize narrow_mlas (2 div size_t (num_heads (fresh_kernel 1 [2, 2, 4])))
             (size_t (Shape \<lparr>Shape = [1, 8], Data = [1, 2, 3, 4, 5, 6, 7, 8 :: 8 word]\<rparr> ! 0)) = 0 \<or>
           MlasGemmPackBSize narrow_mlas (2 div size_t (num_heads (fresh_kernel 1 [2, 2, 4])))
             (size_t (Shape \<lparr>Shape = [1, 8], Data = [1, 2, 3, 4, 5, 6, 7, 8 :: 8 word]\<rparr> ! 0)) = 0 \<or>
           MlasGemmPackBSize narrow_mlas (4 div size_t (num_heads (fresh_kernel 1 [2, 2, 4])))
             (size_t (Shape \<lparr>Shape = [1, 8], Data = [1, 2, 3, 4, 5, 6, 7, 8 :: 8 word]\<rparr> ! 0)) = 0"
    by (simp add: narrow_mlas_def reference_mlas_def fresh_kernel_def s)
  show ?thesis
    using PrePack_pack_failure_releases_buffers [OF n w a p h f, of "\<lambda>p. 255"] h
    by (simp add: fresh_kernel_def narrow_mlas_def reference_mlas_def s)
qed

section \<open>The packed-mode flag\<close>

lemma CheckInputs_hidden_sizes_attrs_cong:
  assumes "num_heads a = num_heads b" "qkv_hidden_sizes a = qkv_hidden_sizes b"
    "use_merged_weights a = use_merged_weights b"
  shows "CheckInputs_hidden_sizes a u x y z w bs k v wk wv =
         CheckInputs_hidden_sizes b u x y z w bs k v wk wv"
  unfolding CheckInputs_hidden_sizes_def assms by (rule refl)

lemma CheckInputs_past_attrs_cong:
  assumes "num_heads a = num_heads b"
  shows "CheckInputs_past a x hk hv t p = CheckInputs_past b x hk hv t p"
  unfolding CheckInputs_past_def assms by (rule refl)

lemma CheckInputs_mask_attrs_cong:
  assumes "is_unidirectional a = is_unidirectional b"
  shows "CheckInputs_mask a x y t m = CheckInputs_mask b x y t m"
  unfolding CheckInputs_mask_def assms by (rule refl)

lemma CheckInputs_extra_add_qk_attrs_cong:
  assumes "num_heads a = num_heads b"
  shows "CheckInputs_extra_add_qk a x y e = CheckInputs_extra_add_qk b x y e"
  unfolding CheckInputs_extra_add_qk_def assms by (rule refl)

lemma CheckInputs_attrs_cong:
  assumes "num_heads a = num_heads b" "is_unidirectional a = is_unidirectional b"
    "qkv_hidden_sizes a = qkv_hidden_sizes b" "use_merged_weights a = use_merged_weights b"
  shows "CheckInputs a u i w bs m p e k v wk wv = CheckInputs b u i w bs m p e k v wk wv"
  unfolding CheckInputs_def
    CheckInputs_hidden_sizes_attrs_cong [OF assms(1,3,4)]
    CheckInputs_past_attrs_cong [OF assms(1)]
    CheckInputs_mask_attrs_cong [OF assms(2)]
    CheckInputs_extra_add_qk_attrs_cong [OF assms(1)]
  by (rule refl)

lemma Compute_unit_unpacked_cong:
  assumes "\<not> is_prepack a" "\<not> is_prepack b" "num_heads a = num_heads b"
  shows "Compute_unit mlas a S D q k v hs QKV inp w bias =
         Compute_unit mlas2 b S D q k v hs QKV inp w bias"
  by (intro ext) (simp add: Compute_unit_def assms)

lemma Compute_projection_unpacked_cong:
  assumes "\<not> is_prepack a" "\<not> is_prepack b" "num_heads a = num_heads b"
    "is_unidirectional a = is_unidirectional b" "qkv_hidden_sizes a = qkv_hidden_sizes b"
    "use_merged_weights a = use_merged_weights b"
  shows "Compute_projection mlas a u tp temp inp w bias m p e k v wk wv =
         Compute_projection mlas2 b u tp temp inp w bias m p e k v wk wv"
  unfolding Compute_projection_def Compute_weights_def
  by (simp only: CheckInputs_attrs_cong [OF assms(3-6)]
        Compute_unit_unpacked_cong [OF assms(1-3), where mlas = mlas and ?mlas2.0 = mlas2] assms
        Let_def if_False option.case)

lemma PrePack_flag:
  assumes "PrePack mlas this weights input_idx alloc shared = Return (st, is_packed, this', shared')"
  shows "(is_prepack this' \<longleftrightarrow> is_prepack this \<or> is_packed) \<and>
         (is_packed \<longrightarrow> input_idx = 1 \<and> length (Shape weights) = 2 \<and>
            (\<exists>q k v. PrePack_hidden_sizes this (Shape weights) = Return (Some (q, k, v)) \<and>
               MlasGemmPackBSize mlas (q div size_t (num_heads this)) (size_t (Shape weights ! 0)) \<noteq> 0 \<and>
               MlasGemmPackBSize mlas (k div size_t (num_heads this)) (size_t (Shape weights ! 0)) \<noteq> 0 \<and>
               MlasGemmPackBSize mlas (v div size_t (num_heads this)) (size_t (Shape weights ! 0)) \<noteq> 0))"
  using assms
  unfolding PrePack_def Let_def PrePack_hidden_sizes_weight_shape
  apply (simp split: if_splits Outcome.splits option.splits prod.splits)
   apply (auto dest!: IsPackWeightsSuccessful_flag simp: FreePackedWeights_def split: if_splits)
  done

lemma UseSharedPrePackedBuffers_flag:
  assumes "UseSharedPrePackedBuffers this prepacked_buffers input_idx used =
           Return (st, used', this', prepacked_buffers')"
  shows "is_prepack this' = is_prepack this \<and>
         (input_idx = 1 \<and> length (packed_weights this) = 3 \<longrightarrow>
            used' \<and> packed_weights this' = take 3 prepacked_buffers) \<and>
         (\<not> is_prepack this \<longrightarrow>
            Compute_weights this' w = Some w \<and>
            Compute_projection mlas1 this' u tp temp inp w bias m p e k v wk wv =
            Compute_projection mlas2 this u tp temp inp w bias m p e k v wk wv)"
proof -
  from assms have a: "is_prepack this' = is_prepack this" "num_heads this' = num_heads this"
    "is_unidirectional this' = is_unidirectional this"
    "qkv_hidden_sizes this' = qkv_hidden_sizes this"
    "use_merged_weights this' = use_merged_weights this"
    by (auto simp: UseSharedPrePackedBuffers_def split: if_splits)
  from assms have b: "input_idx = 1 \<and> length (packed_weights this) = 3 \<longrightarrow>
      used' \<and> packed_weights this' = take 3 prepacked_buffers"
    by (auto simp: UseSharedPrePackedBuffers_def list_update_3_take split: if_splits)
  have c: "\<not> is_prepack this \<longrightarrow>
      Compute_weights this' w = Some w \<and>
      Compute_projection mlas1 this' u tp temp inp w bias m p e k v wk wv =
      Compute_projection mlas2 this u tp temp inp w bias m p e k v wk wv"
    using a by (auto simp: Compute_weights_def intro!: Compute_projection_unpacked_cong)
  show ?thesis
    using a b c by blast
qed

text \<open>
  C10. Whenever \<open>PrePack\<close> returns, the packed-mode flag is set afterwards only if it
  was set before or the call reports \<open>is_packed\<close>, and it reports \<open>is_packed\<close> only for
  input 1 when the size function gave a nonzero size for each of the three head
  sizes, that is when all three packs succeeded. \<open>UseSharedPrePackedBuffers\<close> leaves
  the flag as it was and, for input 1, stores the three given buffers as the
  buffers of the kernel. On a kernel that is not in packed mode, \<open>Compute\<close> after the
  adoption still reads the weight input and its projection is the one of the
  kernel before the adoption, whatever the packed routines of the library are:
  it takes the unpacked path.
\<close>

theorem packed_mode_flag_only_set_by_PrePack:
  "(PrePack mlas this weights input_idx alloc shared = Return (st, is_packed, this', shared') \<longrightarrow>
      (is_prepack this' \<longleftrightarrow> is_prepack this \<or> is_packed) \<and>
      (is_packed \<longrightarrow> input_idx = 1 \<and> length (Shape weights) = 2 \<and>
         (\<exists>q k v. PrePack_hidden_sizes this (Shape weights) = Return (Some (q, k, v)) \<and>
            MlasGemmPackBSize mlas (q div size_t (num_heads this)) (size_t (Shape weights ! 0)) \<noteq> 0 \<and>
            MlasGemmPackBSize mlas (k div size_t (num_heads this)) (size_t (Shape weights ! 0)) \<noteq> 0 \<and>
            MlasGemmPackBSize mlas (v div size_t (num_heads this)) (size_t (Shape weights ! 0)) \<noteq> 0))) \<and>
   (UseSharedPrePackedBuffers op prepacked_buffers idx used =
      Return (st2, used', op', prepacked_buffers') \<longrightarrow>
      is_prepack op' = is_prepack op \<and>
      (idx = 1 \<and> length (packed_weights op) = 3 \<longrightarrow>
         used' \<and> packed_weights op' = take 3 prepacked_buffers) \<and>
      (\<not> is_prepack op \<longrightarrow>
         Compute_weights op' w = Some w \<and>
         Compute_projection mlas1 op' u tp temp inp w bias m p e k v wk wv =
         Compute_projection mlas2 op u tp temp inp w bias m p e k v wk wv))"
  apply (rule conjI)
   apply (rule impI, erule PrePack_flag)
  apply (rule impI, erule UseSharedPrePackedBuffers_flag)
  done

text \<open>
  The witness packs a \<open>1 \<times> 3\<close> weight on a fresh kernel with one head, which sets the
  flag, and lets another fresh kernel adopt the three buffers, which does not.
\<close>

theorem packed_mode_flag_only_set_by_PrePack_witness:
  "PrePack reference_mlas (fresh_kernel 1 []) \<lparr>Shape = [1, 3], Data = [1, 2, 3]\<rparr> 1 (\<lambda>p. 255) None =
     Return (OK, True,
       \<lparr>num_heads = 1, is_unidirectional = False, qkv_hidden_sizes = [],
        use_merged_weights = True,
        packed_weights = [Some [1, 0], Some [2, 0], Some [3, 0]],
        packed_weights_size = [2, 2, 2], is_prepack = True, weight_shape = [1, 3]\<rparr>, None) \<and>
   UseSharedPrePackedBuffers (fresh_kernel 1 []) [Some [1, 0], Some [2, 0], Some [3, 0]] 1 False =
     Return (OK, True,
       (fresh_kernel 1 [])\<lparr>packed_weights := [Some [1, 0], Some [2, 0], Some [3, 0]]\<rparr>,
       [None, None, None]) \<and>
   \<not> is_prepack ((fresh_kernel 1 [])\<lparr>packed_weights := [Some [1, 0], Some [2, 0], Some [3, 0]]\<rparr>) \<and>
   Compute_weights ((fresh_kernel 1 [])\<lparr>packed_weights := [Some [1, 0], Some [2, 0], Some [3, 0]]\<rparr>)
     \<lparr>Shape = [1, 3], Data = [1, 2, 3 :: 8 word]\<rparr> = Some \<lparr>Shape = [1, 3], Data = [1, 2, 3]\<rparr> \<and>
   Compute_projection reference_mlas
     ((fresh_kernel 1 [])\<lparr>packed_weights := [Some [1, 0], Some [2, 0], Some [3, 0]]\<rparr>)
     1 (\<lambda>n. [0..<n]) (\<lambda>p. 7) \<lparr>Shape = [1, 1, 1], Data = [2]\<rparr> \<lparr>Shape = [1, 3], Data = [1, 2, 3]\<rparr>
     \<lparr>Shape = [3], Data = [10, 20, 30]\<rparr> None None None None None None None =
   Compute_projection narrow_mlas (fresh_kernel 1 [])
     1 (\<lambda>n. [0..<n]) (\<lambda>p. 7) \<lparr>Shape = [1, 1, 1], Data = [2]\<rparr> \<lparr>Shape = [1, 3], Data = [1, 2, 3]\<rparr>
     \<lparr>Shape = [3], Data = [10, 20, 30]\<rparr> None None None None None None None"
proof -
  have pp: "PrePack reference_mlas (fresh_kernel 1 []) \<lparr>Shape = [1, 3], Data = [1, 2, 3]\<rparr> 1
      (\<lambda>p. 255) None =
     Return (OK, True,
       \<lparr>num_heads = 1, is_unidirectional = False, qkv_hidden_sizes = [],
        use_merged_weights = True,
        packed_weights = [Some [1, 0], Some [2, 0], Some [3, 0]],
        packed_weights_size = [2, 2, 2], is_prepack = True, weight_shape = [1, 3]\<rparr>, None)"
    by code_simp
  have us: "UseSharedPrePackedBuffers (fresh_kernel 1 [])
      [Some [1, 0], Some [2, 0], Some [3, 0]] 1 False =
     Return (OK, True,
       (fresh_kernel 1 [])\<lparr>packed_weights := [Some [1, 0], Some [2, 0], Some [3, 0]]\<rparr>,
       [None, None, None])"
    by (simp add: UseSharedPrePackedBuffers_def fresh_kernel_def)
  have np: "\<not> is_prepack (fresh_kernel 1 [])"
    by (simp add: fresh_kernel_def)
  note T = packed_mode_flag_only_set_by_PrePack
    [where mlas = reference_mlas and this = "fresh_kernel 1 []"
       and weights = "\<lparr>Shape = [1, 3], Data = [1, 2, 3]\<rparr>" and input_idx = 1
       and alloc = "\<lambda>p. 255" and shared = None
       and op = "fresh_kernel 1 []"
       and prepacked_buffers = "[Some [1, 0], Some [2, 0], Some [3, 0]]" and idx = 1
       and used = False
       and ?mlas1.0 = reference_mlas and ?mlas2.0 = narrow_mlas
       and w = "\<lparr>Shape = [1, 3], Data = [1, 2, 3]\<rparr>" and u = 1 and tp = "\<lambda>n. [0..<n]"
       and temp = "\<lambda>p. 7" and inp = "\<lparr>Shape = [1, 1, 1], Data = [2]\<rparr>"
       and bias = "\<lparr>Shape = [3], Data = [10, 20, 30]\<rparr>"
       and m = None and p = None and e = None and k = None and v = None
       and wk = None and wv = None, THEN conjunct2, THEN mp, OF us]
  show ?thesis
    using pp us np T by simp
qed

section \<open>The projection on the unpacked path\<close>

lemma length_memcpy [simp]: "length (memcpy dst d src s n) = length dst"
  by (simp add: memcpy_def)


lemma length_broadcast_bias [simp]: "length (broadcast_bias n src s hs d buf) = length buf"
  by (induction n arbitrary: d buf) simp_all


lemma length_GemmEx [simp]: "length (GemmEx M N K al A a lda B b ldb be C c ldc) = length C"
  by (simp add: GemmEx_def)





















section \<open>The packed path and the unpacked path\<close>

lemma length_write_at [simp]: "length (write_at dst off new) = length dst"
  by (simp add: write_at_def)



lemma length_pack_heads [simp]:
  "length (pack_heads mlas H D W ldb sz n w d buf) = length buf"
  by (induction n arbitrary: w d buf) simp_all




















end
